theory Spec2Isabelle
  imports Complex_Main "HOL-Library.Sublist"
begin

section \<open>Frontline Installer App: the diagnostic evaluation logic of \<open>src/app.tsx\<close>\<close>

text \<open>
  The development embeds the pure logic of \<open>src/app.tsx\<close>: the tri-state status of each
  of the nine diagnostic cards, the two derived-value helpers
  (\<open>wifiChannelFromFreqMHz\<close>, \<open>wifiStrengthGlyph\<close>), the rulebook table with its lookup
  in \<open>RulebookModal\<close>, and the two places that compute an overall label
  (\<open>OverallStatusCard\<close> and the "Overall Status" row of the Done step).

  In the source the measurements are constants of the component
  (\<open>const voltage = 13.4\<close>, \<open>const ethLinkDetected = "Yes"\<close>, ...), and every status is an
  expression over them. Each expression is embedded as a function of the constants it
  reads, so that a statement "for every voltage" is a statement about that expression.
\<close>

subsection \<open>JavaScript numbers\<close>

text \<open>
  A JavaScript \<open>number\<close> is a finite value, \<open>NaN\<close>, \<open>Infinity\<close> or \<open>-Infinity\<close>. A finite
  number is modelled by the real (or, after \<open>Math.round\<close>, the integer) it denotes; the
  rounding of binary64 arithmetic and the sign of zero are not modelled. Every literal the
  source compares with (11, 12, 15, 16, 2412, ...) is an integer, so a comparison of a
  finite number with it is the comparison of the two reals.
\<close>

datatype 'a js = Num 'a | NaN | Infinity | NegInfinity

text \<open>\<open><\<close> on numbers: false as soon as one side is \<open>NaN\<close>.\<close>

fun js_lt :: "'a::linorder js \<Rightarrow> 'a js \<Rightarrow> bool" where
  "js_lt NaN _ = False"
| "js_lt _ NaN = False"
| "js_lt (Num a) (Num b) = (a < b)"
| "js_lt (Num _) Infinity = True"
| "js_lt (Num _) NegInfinity = False"
| "js_lt Infinity _ = False"
| "js_lt NegInfinity NegInfinity = False"
| "js_lt NegInfinity _ = True"

text \<open>\<open>===\<close> on numbers: \<open>NaN\<close> is equal to nothing, itself included.\<close>

fun js_eq :: "'a js \<Rightarrow> 'a js \<Rightarrow> bool" where
  "js_eq NaN _ = False"
| "js_eq _ NaN = False"
| "js_eq a b = (a = b)"

definition js_le :: "'a::linorder js \<Rightarrow> 'a js \<Rightarrow> bool" where
  "js_le a b = (js_lt a b \<or> js_eq a b)"

definition js_gt :: "'a::linorder js \<Rightarrow> 'a js \<Rightarrow> bool" where
  "js_gt a b = js_lt b a"

definition js_ge :: "'a::linorder js \<Rightarrow> 'a js \<Rightarrow> bool" where
  "js_ge a b = js_le b a"

text \<open>\<open>Number.isFinite\<close>.\<close>

fun isFinite :: "'a js \<Rightarrow> bool" where
  "isFinite (Num _) = True"
| "isFinite _ = False"

text \<open>
  \<open>Math.round\<close>: the nearest integer, a tie going up (towards \<open>+Infinity\<close>).
\<close>

fun Math_round :: "real js \<Rightarrow> int js" where
  "Math_round (Num x) = Num \<lfloor>x + 1 / 2\<rfloor>"
| "Math_round NaN = NaN"
| "Math_round Infinity = Infinity"
| "Math_round NegInfinity = NegInfinity"

text \<open>\<open>Math.min\<close> and \<open>Math.max\<close> of two numbers: \<open>NaN\<close> as soon as one of them is.\<close>

fun Math_min :: "'a::linorder js \<Rightarrow> 'a js \<Rightarrow> 'a js" where
  "Math_min NaN _ = NaN"
| "Math_min _ NaN = NaN"
| "Math_min NegInfinity _ = NegInfinity"
| "Math_min _ NegInfinity = NegInfinity"
| "Math_min Infinity b = b"
| "Math_min a Infinity = a"
| "Math_min (Num a) (Num b) = Num (min a b)"

fun Math_max :: "'a::linorder js \<Rightarrow> 'a js \<Rightarrow> 'a js" where
  "Math_max NaN _ = NaN"
| "Math_max _ NaN = NaN"
| "Math_max Infinity _ = Infinity"
| "Math_max _ Infinity = Infinity"
| "Math_max NegInfinity b = b"
| "Math_max a NegInfinity = a"
| "Math_max (Num a) (Num b) = Num (max a b)"

text \<open>Subtraction.\<close>

fun js_minus :: "'a::minus js \<Rightarrow> 'a js \<Rightarrow> 'a js" where
  "js_minus NaN _ = NaN"
| "js_minus _ NaN = NaN"
| "js_minus (Num a) (Num b) = Num (a - b)"
| "js_minus (Num _) Infinity = NegInfinity"
| "js_minus (Num _) NegInfinity = Infinity"
| "js_minus Infinity Infinity = NaN"
| "js_minus Infinity _ = Infinity"
| "js_minus NegInfinity NegInfinity = NaN"
| "js_minus NegInfinity _ = NegInfinity"

text \<open>
  Division by a positive finite literal (the source divides by 5 and by 20 only); the
  divisor is a parameter of type \<open>real\<close>.
\<close>

fun js_div_by :: "real js \<Rightarrow> real \<Rightarrow> real js" where
  "js_div_by (Num x) d = Num (x / d)"
| "js_div_by NaN _ = NaN"
| "js_div_by Infinity _ = Infinity"
| "js_div_by NegInfinity _ = NegInfinity"

text \<open>
  An integral number used again as a number (\<open>clamped / 20\<close>): no operation in the source.
\<close>

fun to_real :: "int js \<Rightarrow> real js" where
  "to_real (Num n) = Num (of_int n)"
| "to_real NaN = NaN"
| "to_real Infinity = Infinity"
| "to_real NegInfinity = NegInfinity"

text \<open>
  \<open>!x\<close> for \<open>x: number | null\<close>: true for \<open>null\<close>, zero and \<open>NaN\<close>.
\<close>

fun falsy_number :: "real js option \<Rightarrow> bool" where
  "falsy_number None = True"
| "falsy_number (Some NaN) = True"
| "falsy_number (Some (Num x)) = (x = 0)"
| "falsy_number (Some _) = False"

text \<open>
  \<open>String(n)\<close> for an integral number: its decimal digits (exact below \<open>10^21\<close>, where
  JavaScript changes to the exponent notation; the source applies it to channel numbers).
\<close>

fun digits :: "nat \<Rightarrow> string" where
  "digits n =
     (if n < 10 then [''0123456789'' ! n]
      else digits (n div 10) @ [''0123456789'' ! (n mod 10)])"

fun js_String :: "int js \<Rightarrow> string" where
  "js_String (Num n) = (if n < 0 then ''-'' @ digits (nat (- n)) else digits (nat n))"
| "js_String NaN = ''NaN''"
| "js_String Infinity = ''Infinity''"
| "js_String NegInfinity = ''-Infinity''"

text \<open>
  \<open>String.prototype.repeat\<close>: a \<open>RangeError\<close> for a negative or infinite count; \<open>NaN\<close>
  counts as zero.
\<close>

datatype js_error = RangeError

fun js_repeat :: "string \<Rightarrow> int js \<Rightarrow> js_error + string" where
  "js_repeat s (Num n) = (if n < 0 then Inl RangeError else Inr (concat (replicate (nat n) s)))"
| "js_repeat s NaN = Inr []"
| "js_repeat s Infinity = Inl RangeError"
| "js_repeat s NegInfinity = Inl RangeError"

subsection \<open>Statuses\<close>

text \<open>\<open>type DiagnosticStatus = "success" | "warning" | "error"\<close>\<close>

datatype DiagnosticStatus = Success | Warning | Error

subsection \<open>Strings\<close>

text \<open>
  A string of the source is modelled by the list of the bytes of its UTF-8 encoding, which
  keeps equality of strings. The characters outside ASCII that the modelled strings use:
\<close>

definition EN_DASH :: string where
  "EN_DASH = [CHR 0xE2, CHR 0x80, CHR 0x93]"

definition NB_HYPHEN :: string where
  "NB_HYPHEN = [CHR 0xE2, CHR 0x80, CHR 0x91]"

definition LE_SIGN :: string where
  "LE_SIGN = [CHR 0xE2, CHR 0x89, CHR 0xA4]"

definition GE_SIGN :: string where
  "GE_SIGN = [CHR 0xE2, CHR 0x89, CHR 0xA5]"

definition BULLET :: string where
  "BULLET = [CHR 0xE2, CHR 0x80, CHR 0xA2]"

text \<open>The two bar glyphs of \<open>wifiStrengthGlyph\<close>: U+25AE (filled) and U+25AF (empty).\<close>

definition BAR_FILLED :: string where
  "BAR_FILLED = [CHR 0xE2, CHR 0x96, CHR 0xAE]"

definition BAR_EMPTY :: string where
  "BAR_EMPTY = [CHR 0xE2, CHR 0x96, CHR 0xAF]"

text \<open>Truthiness of a \<open>string | null\<close>: \<open>null\<close> and the empty string are falsy.\<close>

fun truthy_string :: "string option \<Rightarrow> bool" where
  "truthy_string None = False"
| "truthy_string (Some s) = (s \<noteq> [])"

subsection \<open>The measurements\<close>

text \<open>
  The constants and state variables of \<open>FrontlineInstallerApp\<close> that a status expression
  reads, with the names and types they have in the source. The string unions that the
  source declares are datatypes; \<open>ethLinkDetected\<close> and \<open>ethInternet\<close> are plain strings there
  and stay strings.
\<close>

datatype YesNo = Yes | No

datatype Reachability = Online | Offline | Unknown

datatype SatStatus = Ready | SatOffline | NotConfigured

record Snapshot =
  voltage :: "real js"
  ethInternet :: string
  ethLinkDetected :: string
  ethRxErrors :: "real js"
  ethTxErrors :: "real js"
  matterWifiProvisioned :: bool
  matterProvisionedSsid :: "string option"
  wifiTechPowered :: bool
  wifiConnected :: bool
  wifiInternetReachability :: Reachability
  cellInternetReachability :: Reachability
  cellStrength :: "real js"
  cellPacketLossPct :: "real js"
  satEnabled :: bool
  satStatus :: SatStatus
  manifoldPsi :: "real js"
  sourcePsi :: "real js"
  cloudReachable :: bool
  cloudPingMs :: "real js"
  firmwareUpdateAvailable :: bool
  firmwareSupported :: bool

text \<open>
  The values the demo gives them. Three of them depend on the state of the component:
  \<open>satelliteBackup\<close>, \<open>matterWifiProvisioned\<close> and \<open>matterProvisionedSsid\<close>.
  \<^verbatim>\<open>
  const satEnabled = satelliteBackup === "Yes";
  const satStatus: "ready" | "offline" | "not configured" = satEnabled ? "offline" : "not configured";
  \<close>
\<close>

definition demo :: "YesNo \<Rightarrow> bool \<Rightarrow> string option \<Rightarrow> Snapshot" where
  "demo satelliteBackup provisioned ssid =
     \<lparr> voltage = Num 13.4,
       ethInternet = ''online'',
       ethLinkDetected = ''Yes'',
       ethRxErrors = Num 0,
       ethTxErrors = Num 0,
       matterWifiProvisioned = provisioned,
       matterProvisionedSsid = ssid,
       wifiTechPowered = True,
       wifiConnected = True,
       wifiInternetReachability = Online,
       cellInternetReachability = Online,
       cellStrength = Num 60,
       cellPacketLossPct = Num 0,
       satEnabled = (satelliteBackup = Yes),
       satStatus = (if satelliteBackup = Yes then SatOffline else NotConfigured),
       manifoldPsi = Num 45,
       sourcePsi = Num 62,
       cloudReachable = True,
       cloudPingMs = Num 42,
       firmwareUpdateAvailable = True,
       firmwareSupported = True \<rparr>"

subsection \<open>The status of each subsystem\<close>

text \<open>
  \<^verbatim>\<open>
  const powerStatus: DiagnosticStatus =
    voltage >= 12 && voltage <= 15 ? "success"
      : voltage >= 11 && voltage < 12 ? "warning"
      : voltage > 15 && voltage <= 16 ? "warning"
      : "error";
  \<close>
\<close>

definition powerStatus :: "Snapshot \<Rightarrow> DiagnosticStatus" where
  "powerStatus s =
     (if js_ge (voltage s) (Num 12) \<and> js_le (voltage s) (Num 15) then Success
      else if js_ge (voltage s) (Num 11) \<and> js_lt (voltage s) (Num 12) then Warning
      else if js_gt (voltage s) (Num 15) \<and> js_le (voltage s) (Num 16) then Warning
      else Error)"

text \<open>
  \<^verbatim>\<open>
  const manifoldStatus = manifoldPsi >= 30 && manifoldPsi <= 80 ? "success"
    : manifoldPsi >= 20 && manifoldPsi < 30 ? "warning" : "error";
  const sourceStatus = sourcePsi >= 30 && sourcePsi <= 80 ? "success"
    : sourcePsi >= 20 && sourcePsi < 30 ? "warning" : "error";
  const cloudStatus = cloudReachable ? (cloudPingMs <= 250 ? "success" : "warning") : "error";
  const firmwareStatus = !firmwareSupported ? "error" : firmwareUpdateAvailable ? "warning" : "success";
  \<close>
\<close>

definition manifoldStatus :: "Snapshot \<Rightarrow> DiagnosticStatus" where
  "manifoldStatus s =
     (if js_ge (manifoldPsi s) (Num 30) \<and> js_le (manifoldPsi s) (Num 80) then Success
      else if js_ge (manifoldPsi s) (Num 20) \<and> js_lt (manifoldPsi s) (Num 30) then Warning
      else Error)"

definition sourceStatus :: "Snapshot \<Rightarrow> DiagnosticStatus" where
  "sourceStatus s =
     (if js_ge (sourcePsi s) (Num 30) \<and> js_le (sourcePsi s) (Num 80) then Success
      else if js_ge (sourcePsi s) (Num 20) \<and> js_lt (sourcePsi s) (Num 30) then Warning
      else Error)"

definition cloudStatus :: "Snapshot \<Rightarrow> DiagnosticStatus" where
  "cloudStatus s =
     (if cloudReachable s then (if js_le (cloudPingMs s) (Num 250) then Success else Warning)
      else Error)"

definition firmwareStatus :: "Snapshot \<Rightarrow> DiagnosticStatus" where
  "firmwareStatus s =
     (if \<not> firmwareSupported s then Error
      else if firmwareUpdateAvailable s then Warning
      else Success)"

text \<open>
  \<^verbatim>\<open>
  const wifiProvisioned = Boolean(matterWifiProvisioned && matterProvisionedSsid);
  const wifiStatus: DiagnosticStatus = wifiProvisioned
    ? wifiInternetReachability === "online" ? "success" : "warning"
    : !wifiTechPowered ? "warning"
    : wifiConnected && wifiInternetReachability === "online" ? "success"
    : wifiConnected && wifiInternetReachability !== "online" ? "warning"
    : "error";
  const wifiSummaryPrimary =
    wifiStatus === "success" ? "Connected" : wifiStatus === "warning" ? "Disabled / Optional" : "Not Connected";
  \<close>
\<close>

definition wifiProvisioned :: "Snapshot \<Rightarrow> bool" where
  "wifiProvisioned s = (matterWifiProvisioned s \<and> truthy_string (matterProvisionedSsid s))"

definition wifiStatus :: "Snapshot \<Rightarrow> DiagnosticStatus" where
  "wifiStatus s =
     (if wifiProvisioned s then
        (if wifiInternetReachability s = Online then Success else Warning)
      else if \<not> wifiTechPowered s then Warning
      else if wifiConnected s \<and> wifiInternetReachability s = Online then Success
      else if wifiConnected s \<and> wifiInternetReachability s \<noteq> Online then Warning
      else Error)"

definition wifiSummaryPrimary :: "Snapshot \<Rightarrow> string" where
  "wifiSummaryPrimary s =
     (if wifiStatus s = Success then ''Connected''
      else if wifiStatus s = Warning then ''Disabled / Optional''
      else ''Not Connected'')"

text \<open>
  \<^verbatim>\<open>
  const ethStatus: DiagnosticStatus =
    ethLinkDetected === "Yes" && ethInternet === "online" && ethRxErrors === 0 && ethTxErrors === 0
      ? "success"
      : ethLinkDetected !== "Yes" || ethInternet !== "online" ? "error" : "warning";
  const cellStatus: DiagnosticStatus =
    cellInternetReachability === "online" && cellPacketLossPct <= 2
      ? cellStrength >= 40 ? "success" : "warning"
      : cellInternetReachability !== "online" ? "error" : "warning";
  const satelliteStatus: DiagnosticStatus =
    satEnabled && satStatus === "ready" ? "success"
      : satEnabled && satStatus === "offline" ? "warning" : "warning";
  \<close>
\<close>

definition ethStatus :: "Snapshot \<Rightarrow> DiagnosticStatus" where
  "ethStatus s =
     (if ethLinkDetected s = ''Yes'' \<and> ethInternet s = ''online'' \<and>
         js_eq (ethRxErrors s) (Num 0) \<and> js_eq (ethTxErrors s) (Num 0)
      then Success
      else if ethLinkDetected s \<noteq> ''Yes'' \<or> ethInternet s \<noteq> ''online'' then Error
      else Warning)"

definition cellStatus :: "Snapshot \<Rightarrow> DiagnosticStatus" where
  "cellStatus s =
     (if cellInternetReachability s = Online \<and> js_le (cellPacketLossPct s) (Num 2) then
        (if js_ge (cellStrength s) (Num 40) then Success else Warning)
      else if cellInternetReachability s \<noteq> Online then Error
      else Warning)"

definition satelliteStatus :: "Snapshot \<Rightarrow> DiagnosticStatus" where
  "satelliteStatus s =
     (if satEnabled s \<and> satStatus s = Ready then Success
      else if satEnabled s \<and> satStatus s = SatOffline then Warning
      else Warning)"

subsection \<open>The diagnostic cards\<close>

text \<open>
  \<open>DiagCardModel\<close>, with the fields the aggregation and the remediation read. The fields
  \<open>icon\<close>, \<open>summarySecondary\<close> and \<open>details\<close> are display text that nothing below
  depends on; they are left out. The field \<open>id\<close> is \<open>id'\<close> here.
\<close>

datatype ActionKind = goToNetwork | openCheatSheet

record Action =
  label :: string
  kind :: ActionKind

record Remediation =
  remediation_title :: string
  actions :: "Action list"

record DiagCardModel =
  id' :: string
  title :: string
  status :: DiagnosticStatus
  summaryPrimary :: string
  remediation :: "Remediation option"

text \<open>The remediation block of the Wi-Fi card (\<open>undefined\<close> is \<open>None\<close>).\<close>

definition wifiRemediation :: "Snapshot \<Rightarrow> Remediation option" where
  "wifiRemediation s =
     (if wifiStatus s = Error then
        Some \<lparr> remediation_title = ''Action Required'',
               actions =
                 [\<lparr> label = ''Configure Wi'' @ NB_HYPHEN @ ''Fi Network'', kind = goToNetwork \<rparr>,
                  \<lparr> label = ''Wi'' @ NB_HYPHEN @ ''Fi Rulebook'', kind = openCheatSheet \<rparr>] \<rparr>
      else if wifiStatus s = Warning then
        Some \<lparr> remediation_title = ''Optional'',
               actions =
                 [\<lparr> label = ''Enable / Configure Wi'' @ NB_HYPHEN @ ''Fi (optional backup)'',
                    kind = goToNetwork \<rparr>] \<rparr>
      else None)"

text \<open>The array \<open>diagCards\<close>: nine cards, in the order the source lists them.\<close>

definition diagCards :: "Snapshot \<Rightarrow> DiagCardModel list" where
  "diagCards s =
     [\<lparr> id' = ''ethernet'', title = ''Ethernet'', status = ethStatus s,
        summaryPrimary =
          (if ethStatus s = Success then ''Connected''
           else if ethStatus s = Warning then ''Degraded''
           else ''Offline''),
        remediation = None \<rparr>,
      \<lparr> id' = ''wifi'', title = ''Wi'' @ NB_HYPHEN @ ''Fi'', status = wifiStatus s,
        summaryPrimary = wifiSummaryPrimary s,
        remediation = wifiRemediation s \<rparr>,
      \<lparr> id' = ''cellular'', title = ''Cellular'', status = cellStatus s,
        summaryPrimary =
          (if cellStatus s = Success then ''Connected''
           else if cellStatus s = Warning then ''Degraded''
           else ''Offline''),
        remediation = None \<rparr>,
      \<lparr> id' = ''satellite'', title = ''Satellite'', status = satelliteStatus s,
        summaryPrimary =
          (if satEnabled s then (if satStatus s = Ready then ''Ready'' else ''Offline'')
           else ''Not Configured''),
        remediation = None \<rparr>,
      \<lparr> id' = ''power'', title = ''Power'', status = powerStatus s,
        summaryPrimary =
          (if powerStatus s = Success then ''Normal''
           else if powerStatus s = Warning then ''Marginal''
           else ''Out of range''),
        remediation = None \<rparr>,
      \<lparr> id' = ''manifold'', title = ''Manifold Pressure'', status = manifoldStatus s,
        summaryPrimary =
          (if manifoldStatus s = Success then ''Normal''
           else if manifoldStatus s = Warning then ''Marginal''
           else ''Low''),
        remediation = None \<rparr>,
      \<lparr> id' = ''source'', title = ''Source Pressure'', status = sourceStatus s,
        summaryPrimary =
          (if sourceStatus s = Success then ''Normal''
           else if sourceStatus s = Warning then ''Marginal''
           else ''Low''),
        remediation = None \<rparr>,
      \<lparr> id' = ''cloud'', title = ''Cloud Sync'', status = cloudStatus s,
        summaryPrimary =
          (if cloudStatus s = Success then ''Synced''
           else if cloudStatus s = Warning then ''Delayed''
           else ''Offline''),
        remediation = None \<rparr>,
      \<lparr> id' = ''firmware'', title = ''Firmware'', status = firmwareStatus s,
        summaryPrimary =
          (if firmwareStatus s = Success then ''Current''
           else if firmwareStatus s = Warning then ''Update available''
           else ''Unsupported''),
        remediation = None \<rparr>]"

subsection \<open>The overview: \<open>OverallStatusCard\<close> and the Done step's row\<close>

text \<open>
  \<^verbatim>\<open>
  const hasError = diagCards.some((d) => d.status === "error");
  const hasWarning = diagCards.some((d) => d.status === "warning");
  const statusLabel = hasError ? "Needs Attention" : hasWarning ? "Good (with advisories)" : "Excellent";
  const topIssues = diagCards
    .filter((d) => d.status !== "success")
    .slice(0, 3)
    .map((d) => `${d.title}: ${d.summaryPrimary}`);
  \<close>
\<close>

definition hasError :: "DiagCardModel list \<Rightarrow> bool" where
  "hasError cards = list_ex (\<lambda>d. status d = Error) cards"

definition hasWarning :: "DiagCardModel list \<Rightarrow> bool" where
  "hasWarning cards = list_ex (\<lambda>d. status d = Warning) cards"

definition statusLabel :: "DiagCardModel list \<Rightarrow> string" where
  "statusLabel cards =
     (if hasError cards then ''Needs Attention''
      else if hasWarning cards then ''Good (with advisories)''
      else ''Excellent'')"

definition topIssues :: "DiagCardModel list \<Rightarrow> string list" where
  "topIssues cards =
     map (\<lambda>d. title d @ '': '' @ summaryPrimary d)
       (take 3 (filter (\<lambda>d. status d \<noteq> Success) cards))"

text \<open>
  The text of the lines the card shows under the label:
  \<^verbatim>\<open>
  {topIssues.length === 0 ? <div>* All diagnostics passed.</div>
                          : topIssues.map((n) => <div key={n}>* {n}</div>)}
  \<close>
  (the \<open>*\<close> stands for the bullet U+2022 of the source).
\<close>

definition issueLines :: "DiagCardModel list \<Rightarrow> string list" where
  "issueLines cards =
     (if length (topIssues cards) = 0 then [BULLET @ '' All diagnostics passed.'']
      else map (\<lambda>n. BULLET @ '' '' @ n) (topIssues cards))"

text \<open>
  The "Overall Status" row of the Done step (in \<open>FrontlineInstallerApp\<close>):
  \<^verbatim>\<open>
  value={diagCards.some((d) => d.status === "error") ? "Needs attention"
       : diagCards.some((d) => d.status === "warning") ? "Good" : "Excellent"}
  \<close>
\<close>

definition overallStatusRow :: "DiagCardModel list \<Rightarrow> string" where
  "overallStatusRow cards =
     (if list_ex (\<lambda>d. status d = Error) cards then ''Needs attention''
      else if list_ex (\<lambda>d. status d = Warning) cards then ''Good''
      else ''Excellent'')"

subsection \<open>The derived-value helpers\<close>

text \<open>
  \<^verbatim>\<open>
  function wifiChannelFromFreqMHz(freqMHz: number | null): string | null {
    if (!freqMHz) return null;
    if (freqMHz >= 2412 && freqMHz <= 2484) {
      const ch = Math.round((freqMHz - 2407) / 5);
      return Number.isFinite(ch) ? String(ch) : null;
    }
    if (freqMHz >= 5000 && freqMHz <= 5900) {
      const ch = Math.round((freqMHz - 5000) / 5);
      return Number.isFinite(ch) ? String(ch) : null;
    }
    return null;
  }
  \<close>
  \<open>null\<close> is \<open>None\<close>, in the argument and in the result.
\<close>

definition wifiChannelFromFreqMHz :: "real js option \<Rightarrow> string option" where
  "wifiChannelFromFreqMHz freqMHz =
     (if falsy_number freqMHz then None
      else case freqMHz of
        None \<Rightarrow> None
      | Some f \<Rightarrow>
          if js_ge f (Num 2412) \<and> js_le f (Num 2484) then
            (let ch = Math_round (js_div_by (js_minus f (Num 2407)) 5)
             in if isFinite ch then Some (js_String ch) else None)
          else if js_ge f (Num 5000) \<and> js_le f (Num 5900) then
            (let ch = Math_round (js_div_by (js_minus f (Num 5000)) 5)
             in if isFinite ch then Some (js_String ch) else None)
          else None)"

text \<open>
  \<^verbatim>\<open>
  function wifiStrengthGlyph(pct: number | null) {
    if (pct === null || !Number.isFinite(pct)) return "EEEEE";
    const clamped = Math.max(0, Math.min(100, Math.round(pct)));
    const filled = Math.max(0, Math.min(5, Math.round(clamped / 20)));
    return "F".repeat(filled) + "E".repeat(5 - filled);
  }
  \<close>
  where \<open>F\<close> stands for the filled bar U+25AE and \<open>E\<close> for the empty bar U+25AF. The result
  is \<open>Inr\<close> of the string, or \<open>Inl\<close> of the error that \<open>repeat\<close> throws.
\<close>

definition wifiStrengthGlyph :: "real js option \<Rightarrow> js_error + string" where
  "wifiStrengthGlyph pct =
     (case pct of
        None \<Rightarrow> Inr (BAR_EMPTY @ BAR_EMPTY @ BAR_EMPTY @ BAR_EMPTY @ BAR_EMPTY)
      | Some p \<Rightarrow>
          if \<not> isFinite p then Inr (BAR_EMPTY @ BAR_EMPTY @ BAR_EMPTY @ BAR_EMPTY @ BAR_EMPTY)
          else
            let clamped = Math_max (Num 0) (Math_min (Num 100) (Math_round p));
                filled = Math_max (Num 0) (Math_min (Num 5) (Math_round (js_div_by (to_real clamped) 20)))
            in case js_repeat BAR_FILLED filled of
                 Inl e \<Rightarrow> Inl e
               | Inr a \<Rightarrow>
                   (case js_repeat BAR_EMPTY (js_minus (Num 5) filled) of
                      Inl e \<Rightarrow> Inl e
                    | Inr b \<Rightarrow> Inr (a @ b)))"

subsection \<open>The rulebook\<close>

text \<open>
  \<open>RuleEntry\<close> and the constant table \<open>RULEBOOK\<close>, entry by entry as the source has it. The
  fields \<open>id\<close> and \<open>title\<close> are \<open>rule_id\<close> and \<open>rule_title\<close> here.
\<close>

record RuleEntry =
  rule_id :: string
  rule_title :: string
  intent :: string
  green :: "string list"
  yellow :: "string list"
  red :: "string list"
  recommendedActions :: "string list"

definition RULEBOOK :: "RuleEntry list" where
  "RULEBOOK =
     [
      \<lparr> rule_id = ''ethernet'',
        rule_title = ''Ethernet'',
        intent =
          ''Proves wired connectivity is stable enough for cloud sync and commissioning.'',
        green =
          [''Link detected = Yes (ethtool)'',
           ''Duplex = Full (ethtool)'',
           ''IPv4 address present (ifconfig)'',
           ''Internet reachable = Online (ethernet-check)'',
           ''Packet loss '' @ LE_SIGN @ '' 2% (ethernet-check)''],
        yellow =
          [''Packet loss > 2% and '' @ LE_SIGN @ '' 10%'',
           ''Speed lower than expected (e.g., 100 Mb/s when Gigabit is available)'',
           ''RX drops increasing (but errors remain 0)''],
        red =
          [''Link detected = No'',
           ''No IPv4 address'',
           ''Internet unreachable'',
           ''Packet loss > 10%'',
           ''RX/TX errors > 0'',
           ''Duplex mismatch or link flapping''],
        recommendedActions =
          [''Reseat/replace Ethernet cable with known-good cable'',
           ''Try a different router/switch port'',
           ''Re-run diagnostics'',
           ''If still failing: use Wi'' @ NB_HYPHEN @ ''Fi/Cellular and flag controller/cable/router for follow-up''] \<rparr>,
      \<lparr> rule_id = ''wifi'',
        rule_title = ''Wi'' @ NB_HYPHEN @ ''Fi'',
        intent =
          ''Verifies Wi'' @ NB_HYPHEN @ ''Fi provisioning and link quality for primary or backup connectivity.'',
        green =
          [''Connected to SSID'',
           ''Internet reachable'',
           ''Strength '' @ GE_SIGN @ '' 60/100''],
        yellow =
          [''Wi'' @ NB_HYPHEN @ ''Fi disabled (optional)'',
           ''Strength 30'' @ EN_DASH @ ''59/100'',
           ''High latency or intermittent loss''],
        red =
          [''Not connected (when expected)'',
           ''No internet reachability'',
           ''Technology disabled unexpectedly''],
        recommendedActions =
          [''Use Current Wi'' @ NB_HYPHEN @ ''Fi via Matter (fast path)'',
           ''Provision Selected Wi'' @ NB_HYPHEN @ ''Fi via Matter'',
           ''Move closer / choose stronger SSID'',
           ''Confirm passcode'',
           ''Use Ethernet/Cellular as fallback''] \<rparr>,
      \<lparr> rule_id = ''cellular'',
        rule_title = ''Cellular'',
        intent =
          ''Verifies cellular modem is registered and usable as backup or primary uplink.'',
        green =
          [''Internet reachable'',
           ''Packet loss '' @ LE_SIGN @ '' 2%'',
           ''Signal '' @ GE_SIGN @ '' 40/100''],
        yellow =
          [''Signal 20'' @ EN_DASH @ ''39/100'',
           ''Latency high (still usable)'',
           ''Intermittent loss''],
        red =
          [''Internet unreachable'', ''No provider / no session'', ''Packet loss > 10%''],
        recommendedActions =
          [''Check antenna/placement'',
           ''Verify SIM active'',
           ''Reboot modem/controller'',
           ''Escalate to support if still no session''] \<rparr>,
      \<lparr> rule_id = ''satellite'',
        rule_title = ''Satellite'',
        intent =
          ''Confirms satellite backup is available when enabled.'',
        green =
          [''Enabled and ready'', ''Recent successful contact''],
        yellow =
          [''Enabled but not currently connected'', ''Provisioned but idle''],
        red =
          [''Enabled but offline / fault'', ''No modem detected''],
        recommendedActions =
          [''Confirm satellite backup enabled'',
           ''Check antenna placement'',
           ''Re-run satellite diagnostic'',
           ''Escalate if modem not detected''] \<rparr>,
      \<lparr> rule_id = ''power'',
        rule_title = ''Power'',
        intent =
          ''Ensures controller supply voltage is within safe operating range.'',
        green =
          [''12.0'' @ EN_DASH @ ''15.0 V''],
        yellow =
          [''11.0'' @ EN_DASH @ ''11.9 V'', ''15.1'' @ EN_DASH @ ''16.0 V''],
        red =
          [''< 11.0 V'', ''> 16.0 V''],
        recommendedActions =
          [''Check power supply and wiring'',
           ''Verify battery/solar configuration'',
           ''Measure with multimeter if readings look wrong''] \<rparr>,
      \<lparr> rule_id = ''manifold'',
        rule_title = ''Manifold Pressure'',
        intent =
          ''Indicates pressure on the distribution/manifold side.'',
        green =
          [''Pressure within expected operating range''],
        yellow =
          [''Pressure marginal (near limits)'', ''Pressure unstable''],
        red =
          [''Pressure too low for operation'', ''Pressure too high / unsafe''],
        recommendedActions =
          [''Check pump/valves state'',
           ''Verify supply and filters'',
           ''Re-run pressure test''] \<rparr>,
      \<lparr> rule_id = ''source'',
        rule_title = ''Source Pressure'',
        intent =
          ''Indicates supply pressure available from the water source.'',
        green =
          [''Source pressure within expected range''],
        yellow =
          [''Low but usable'', ''Fluctuating''],
        red =
          [''No pressure / very low'', ''Unstable / unreliable source''],
        recommendedActions =
          [''Check supply valve/source'',
           ''Confirm tank level / municipal pressure'',
           ''Inspect intake/strainer''] \<rparr>,
      \<lparr> rule_id = ''cloud'',
        rule_title = ''Cloud Sync'',
        intent =
          ''Confirms controller can reach Frontline cloud services reliably.'',
        green =
          [''Ping succeeds'', ''Recent sync timestamp''],
        yellow =
          [''Slow ping'', ''Delayed sync''],
        red =
          [''Cannot reach endpoint'', ''No sync''],
        recommendedActions =
          [''Fix underlying network (Ethernet/Wi'' @ NB_HYPHEN @ ''Fi/Cellular)'',
           ''Re-run diagnostics'',
           ''Confirm endpoint configured''] \<rparr>,
      \<lparr> rule_id = ''firmware'',
        rule_title = ''Firmware'',
        intent =
          ''Shows installed firmware version and whether an update is recommended.'',
        green =
          [''Version current / supported''],
        yellow =
          [''Update available (recommended)''],
        red =
          [''Unsupported / blocked version''],
        recommendedActions =
          [''Schedule update'',
           ''Confirm update window and connectivity'',
           ''Escalate if version is blocked''] \<rparr>]"

text \<open>
  The lookup of \<open>RulebookModal\<close>:
  \<^verbatim>\<open>
  const [selectedId, setSelectedId] = useState<string>(focus ?? "ethernet");
  useEffect(() => { if (focus) setSelectedId(focus); }, [focus]);
  const selected = RULEBOOK.find((r) => r.id === selectedId) ?? RULEBOOK[0];
  \<close>
  \<open>RULEBOOK_find\<close> is the call of \<open>find\<close> (\<open>undefined\<close> is \<open>None\<close>), which \<open>__selfTest\<close> makes
  too; \<open>selected\<close> is the whole expression, with its fallback to the first entry.
\<close>

definition RULEBOOK_find :: "string \<Rightarrow> RuleEntry option" where
  "RULEBOOK_find selectedId = find (\<lambda>r. rule_id r = selectedId) RULEBOOK"

definition selected :: "string \<Rightarrow> RuleEntry option" where
  "selected selectedId =
     (case RULEBOOK_find selectedId of
        Some r \<Rightarrow> Some r
      | None \<Rightarrow> (case RULEBOOK of [] \<Rightarrow> None | r # _ \<Rightarrow> Some r))"

text \<open>The id the modal selects when it opens with a given \<open>focus\<close>.\<close>

definition initialSelectedId :: "string option \<Rightarrow> string" where
  "initialSelectedId focus = (case focus of None \<Rightarrow> ''ethernet'' | Some f \<Rightarrow> f)"

subsection \<open>Comparing labels up to letter case\<close>

text \<open>
  Not a function of the source: the specification writes the labels in lower case, and
  two labels are compared "up to casing" through \<open>lower\<close>, which maps \<open>A\<close>..\<open>Z\<close> to
  \<open>a\<close>..\<open>z\<close> and keeps every other character.
\<close>

definition lower_char :: "char \<Rightarrow> char" where
  "lower_char c =
     (case map_of (zip ''ABCDEFGHIJKLMNOPQRSTUVWXYZ'' ''abcdefghijklmnopqrstuvwxyz'') c of
        Some l \<Rightarrow> l
      | None \<Rightarrow> c)"

definition lower :: "string \<Rightarrow> string" where
  "lower s = map lower_char s"

section \<open>Properties\<close>

subsection \<open>Comparisons of a finite number\<close>

lemma js_cmp_Num [simp]:
  "js_le (Num a) (Num b) = (a \<le> b)"
  "js_ge (Num a) (Num b) = (b \<le> a)"
  "js_gt (Num a) (Num b) = (b < a)"
  by (auto simp: js_le_def js_ge_def js_gt_def)

lemma js_cmp_nonfinite [simp]:
  "js_le NaN c = False" "js_ge NaN c = False" "js_gt NaN c = False"
  "js_le Infinity (Num b) = False" "js_ge NegInfinity (Num b) = False"
  "js_lt Infinity (Num b) = False" "js_gt NegInfinity (Num b) = False"
  "js_ge Infinity (Num b) = True" "js_le NegInfinity (Num b) = True"
  for b :: "'a::linorder" and c :: "'a js"
  by (cases c; simp add: js_le_def js_ge_def js_gt_def)+

subsection \<open>Power\<close>

lemma powerStatus_Num:
  "voltage s = Num x \<Longrightarrow>
   powerStatus s =
     (if 12 \<le> x \<and> x \<le> 15 then Success
      else if (11 \<le> x \<and> x < 12) \<or> (15 < x \<and> x \<le> 16) then Warning
      else Error)"
  by (simp add: powerStatus_def)

lemma powerStatus_nonfinite:
  "voltage s = NaN \<or> voltage s = Infinity \<or> voltage s = NegInfinity \<Longrightarrow> powerStatus s = Error"
  by (auto simp: powerStatus_def)

text \<open>
  C1. For every supply voltage, the power status is \<open>success\<close> exactly when the voltage is a
  finite value in \<open>[12, 15]\<close>, \<open>warning\<close> exactly when it is in \<open>[11, 12)\<close> or \<open>(15, 16]\<close>, and
  \<open>error\<close> in every other case (a finite value below 11 or above 16, and also \<open>NaN\<close> and
  the infinities). The boundary values: 12.0 is success, 11.0 warning, 10.99 error,
  16.0 warning, 16.01 error.
\<close>

theorem C1_power_bands:
  "((powerStatus s = Success) = (\<exists>x. voltage s = Num x \<and> 12 \<le> x \<and> x \<le> 15)) \<and>
   ((powerStatus s = Warning) =
      (\<exists>x. voltage s = Num x \<and> ((11 \<le> x \<and> x < 12) \<or> (15 < x \<and> x \<le> 16)))) \<and>
   ((powerStatus s = Error) =
      (\<forall>x. voltage s = Num x \<longrightarrow> x < 11 \<or> 16 < x)) \<and>
   powerStatus (s\<lparr>voltage := Num 12.0\<rparr>) = Success \<and>
   powerStatus (s\<lparr>voltage := Num 11.0\<rparr>) = Warning \<and>
   powerStatus (s\<lparr>voltage := Num 10.99\<rparr>) = Error \<and>
   powerStatus (s\<lparr>voltage := Num 16.0\<rparr>) = Warning \<and>
   powerStatus (s\<lparr>voltage := Num 16.01\<rparr>) = Error"
proof -
  have bands:
    "((powerStatus s = Success) = (\<exists>x. voltage s = Num x \<and> 12 \<le> x \<and> x \<le> 15)) \<and>
     ((powerStatus s = Warning) =
        (\<exists>x. voltage s = Num x \<and> ((11 \<le> x \<and> x < 12) \<or> (15 < x \<and> x \<le> 16)))) \<and>
     ((powerStatus s = Error) = (\<forall>x. voltage s = Num x \<longrightarrow> x < 11 \<or> 16 < x))"
  proof (cases "voltage s")
    case (Num x)
    then show ?thesis by (auto simp: powerStatus_Num)
  qed (simp_all add: powerStatus_nonfinite)
  have points:
    "powerStatus (s\<lparr>voltage := Num 12.0\<rparr>) = Success"
    "powerStatus (s\<lparr>voltage := Num 11.0\<rparr>) = Warning"
    "powerStatus (s\<lparr>voltage := Num 10.99\<rparr>) = Error"
    "powerStatus (s\<lparr>voltage := Num 16.0\<rparr>) = Warning"
    "powerStatus (s\<lparr>voltage := Num 16.01\<rparr>) = Error"
    by (simp_all add: powerStatus_def)
  from bands points show ?thesis by blast
qed

theorem C1_power_bands_witness:
  "powerStatus (demo Yes False None) = Success \<and>
   powerStatus (demo Yes False None\<lparr>voltage := Num 11.5\<rparr>) = Warning \<and>
   powerStatus (demo Yes False None\<lparr>voltage := Num 17\<rparr>) = Error \<and>
   powerStatus (demo Yes False None\<lparr>voltage := NaN\<rparr>) = Error"
proof -
  let ?d = "demo Yes False None"
  have "\<exists>x. voltage ?d = Num x \<and> 12 \<le> x \<and> x \<le> 15"
    by (rule exI [of _ "13.4"]) (simp add: demo_def)
  then have a: "powerStatus ?d = Success"
    using C1_power_bands [of ?d] by blast
  have "\<exists>x. voltage (?d\<lparr>voltage := Num 11.5\<rparr>) = Num x \<and>
          ((11 \<le> x \<and> x < 12) \<or> (15 < x \<and> x \<le> 16))"
    by (rule exI [of _ "11.5"]) simp
  then have b: "powerStatus (?d\<lparr>voltage := Num 11.5\<rparr>) = Warning"
    using C1_power_bands [of "?d\<lparr>voltage := Num 11.5\<rparr>"] by blast
  have "\<forall>x. voltage (?d\<lparr>voltage := Num 17\<rparr>) = Num x \<longrightarrow> x < 11 \<or> 16 < x"
    by simp
  then have c: "powerStatus (?d\<lparr>voltage := Num 17\<rparr>) = Error"
    using C1_power_bands [of "?d\<lparr>voltage := Num 17\<rparr>"] by blast
  have "\<forall>x. voltage (?d\<lparr>voltage := NaN\<rparr>) = Num x \<longrightarrow> x < 11 \<or> 16 < x"
    by simp
  then have d: "powerStatus (?d\<lparr>voltage := NaN\<rparr>) = Error"
    using C1_power_bands [of "?d\<lparr>voltage := NaN\<rparr>"] by blast
  from a b c d show ?thesis by simp
qed

subsection \<open>The overview\<close>

lemmas status_defs =
  ethStatus_def wifiStatus_def wifiProvisioned_def cellStatus_def satelliteStatus_def
  powerStatus_def manifoldStatus_def sourceStatus_def cloudStatus_def firmwareStatus_def

lemma status_cases: "st = Success \<or> st = Warning \<or> st = Error"
  by (cases st) simp_all

lemma hasError_iff: "hasError cards = (\<exists>d\<in>set cards. status d = Error)"
  by (simp add: hasError_def list_ex_iff)

lemma hasWarning_iff: "hasWarning cards = (\<exists>d\<in>set cards. status d = Warning)"
  by (simp add: hasWarning_def list_ex_iff)

lemma all_success_iff:
  "(\<forall>d\<in>set cards. status d = Success) = (\<not> hasError cards \<and> \<not> hasWarning cards)"
proof -
  have "\<And>d. (status d = Success) = (status d \<noteq> Error \<and> status d \<noteq> Warning)"
    using status_cases by auto
  then show ?thesis
    by (auto simp: hasError_iff hasWarning_iff)
qed

lemma lower_labels:
  "lower ''Needs Attention'' = ''needs attention''"
  "lower ''Needs attention'' = ''needs attention''"
  "lower ''Good (with advisories)'' = ''good (with advisories)''"
  "lower ''Good'' = ''good''"
  "lower ''Excellent'' = ''excellent''"
  by (simp_all add: lower_def lower_char_def)

lemma diagCards_status:
  "map status (diagCards s) =
     [ethStatus s, wifiStatus s, cellStatus s, satelliteStatus s, powerStatus s,
      manifoldStatus s, sourceStatus s, cloudStatus s, firmwareStatus s]"
  by (simp add: diagCards_def)

lemma ex_status_iff: "(\<exists>d\<in>set cards. status d = st) = (st \<in> set (map status cards))"
  by auto

text \<open>
  C2. For every list of cards, the label of \<open>OverallStatusCard\<close> is "Needs Attention" when
  some card has status \<open>error\<close>, else "Good (with advisories)" when some card has status
  \<open>warning\<close>, else "Excellent". The specification writes the three labels in lower case:
  they are the labels of the source up to letter case (second conjunct). One \<open>error\<close>
  card anywhere in the list, whatever the cards before and after it, gives
  "Needs Attention" (third conjunct).
\<close>

theorem C2_overall_label:
  "statusLabel cards =
     (if \<exists>d\<in>set cards. status d = Error then ''Needs Attention''
      else if \<exists>d\<in>set cards. status d = Warning then ''Good (with advisories)''
      else ''Excellent'') \<and>
   lower (statusLabel cards) =
     (if \<exists>d\<in>set cards. status d = Error then ''needs attention''
      else if \<exists>d\<in>set cards. status d = Warning then ''good (with advisories)''
      else ''excellent'') \<and>
   statusLabel (xs @ d\<lparr>status := Error\<rparr> # ys) = ''Needs Attention''"
proof -
  have label: "statusLabel cards =
     (if \<exists>d\<in>set cards. status d = Error then ''Needs Attention''
      else if \<exists>d\<in>set cards. status d = Warning then ''Good (with advisories)''
      else ''Excellent'')"
    by (simp add: statusLabel_def hasError_iff hasWarning_iff)
  have low: "lower (statusLabel cards) =
     (if \<exists>d\<in>set cards. status d = Error then ''needs attention''
      else if \<exists>d\<in>set cards. status d = Warning then ''good (with advisories)''
      else ''excellent'')"
    unfolding label by (simp add: lower_labels)
  have "hasError (xs @ d\<lparr>status := Error\<rparr> # ys)"
    by (simp add: hasError_iff)
  then have one: "statusLabel (xs @ d\<lparr>status := Error\<rparr> # ys) = ''Needs Attention''"
    by (simp add: statusLabel_def)
  from label low one show ?thesis by blast
qed

theorem C2_overall_label_witness:
  "statusLabel (diagCards (demo Yes False None)) = ''Good (with advisories)'' \<and>
   statusLabel (diagCards (demo Yes False None\<lparr>voltage := Num 9\<rparr>)) = ''Needs Attention'' \<and>
   lower (statusLabel (diagCards (demo Yes False None\<lparr>voltage := Num 9\<rparr>))) = ''needs attention'' \<and>
   statusLabel
     (diagCards (demo Yes False None\<lparr>satStatus := Ready, firmwareUpdateAvailable := False\<rparr>)) =
     ''Excellent''"
  using C2_overall_label [of "diagCards (demo Yes False None)"]
    C2_overall_label [of "diagCards (demo Yes False None\<lparr>voltage := Num 9\<rparr>)"]
    C2_overall_label
      [of "diagCards (demo Yes False None\<lparr>satStatus := Ready, firmwareUpdateAvailable := False\<rparr>)"]
  by (simp add: lower_labels ex_status_iff diagCards_status demo_def status_defs)

text \<open>
  C3. For every list of cards, \<open>topIssues\<close> is made of the cards whose status is not
  \<open>success\<close>, in the order of the list (a subsequence of it, not sorted by severity), cut
  after the first three, each rendered as \<open>title: summaryPrimary\<close>. It is empty exactly when
  every card is \<open>success\<close>, and then the card shows the single line
  "All diagnostics passed." instead of an empty list. The list \<open>diagCards\<close> itself has the
  nine subsystems in one fixed order.
\<close>

theorem C3_top_issues:
  "topIssues cards =
     map (\<lambda>d. title d @ '': '' @ summaryPrimary d)
       (take 3 (filter (\<lambda>d. status d \<noteq> Success) cards)) \<and>
   subseq (take 3 (filter (\<lambda>d. status d \<noteq> Success) cards)) cards \<and>
   length (topIssues cards) = min 3 (length (filter (\<lambda>d. status d \<noteq> Success) cards)) \<and>
   (topIssues cards = []) = (\<forall>d\<in>set cards. status d = Success) \<and>
   issueLines cards =
     (if \<forall>d\<in>set cards. status d = Success then [BULLET @ '' All diagnostics passed.'']
      else map (\<lambda>n. BULLET @ '' '' @ n) (topIssues cards)) \<and>
   map id' (diagCards s) =
     [''ethernet'', ''wifi'', ''cellular'', ''satellite'', ''power'', ''manifold'', ''source'',
      ''cloud'', ''firmware'']"
proof -
  let ?ns = "filter (\<lambda>d. status d \<noteq> Success) cards"
  have sub: "subseq (take 3 ?ns) cards"
  proof -
    have "subseq (take 3 ?ns) ?ns"
      by (rule prefix_imp_subseq) (rule take_is_prefix)
    moreover have "subseq ?ns cards"
      by simp
    ultimately show ?thesis
      by (rule subseq_order.order_trans)
  qed
  have len: "length (topIssues cards) = min 3 (length ?ns)"
    by (simp add: topIssues_def min.commute)
  have empty: "(topIssues cards = []) = (\<forall>d\<in>set cards. status d = Success)"
    by (simp add: topIssues_def filter_empty_conv)
  have lines: "issueLines cards =
     (if \<forall>d\<in>set cards. status d = Success then [BULLET @ '' All diagnostics passed.'']
      else map (\<lambda>n. BULLET @ '' '' @ n) (topIssues cards))"
    using empty by (simp add: issueLines_def)
  have ids: "map id' (diagCards s) =
     [''ethernet'', ''wifi'', ''cellular'', ''satellite'', ''power'', ''manifold'', ''source'',
      ''cloud'', ''firmware'']"
    by (simp add: diagCards_def)
  from sub len empty lines ids show ?thesis
    by (simp add: topIssues_def)
qed

theorem C3_top_issues_witness:
  "topIssues (diagCards (demo Yes False None\<lparr>voltage := Num 9, ethRxErrors := Num 3\<rparr>)) =
     [''Ethernet: Degraded'', ''Satellite: Offline'', ''Power: Out of range''] \<and>
   topIssues
     (diagCards (demo Yes False None\<lparr>satStatus := Ready, firmwareUpdateAvailable := False\<rparr>)) = [] \<and>
   issueLines
     (diagCards (demo Yes False None\<lparr>satStatus := Ready, firmwareUpdateAvailable := False\<rparr>)) =
     [BULLET @ '' All diagnostics passed.'']"
  using
    C3_top_issues [of "diagCards (demo Yes False None\<lparr>voltage := Num 9, ethRxErrors := Num 3\<rparr>)"]
    C3_top_issues
      [of "diagCards (demo Yes False None\<lparr>satStatus := Ready, firmwareUpdateAvailable := False\<rparr>)"]
  by (simp add: diagCards_def demo_def status_defs wifiSummaryPrimary_def)

text \<open>
  C10. The overall label is computed twice. When no card is \<open>error\<close> and some card is
  \<open>warning\<close>, the row of the Done step shows "Good" and \<open>OverallStatusCard\<close> shows
  "Good (with advisories)". The two labels are equal up to letter case exactly when some
  card is \<open>error\<close> ("Needs attention" and "Needs Attention") or every card is \<open>success\<close>
  ("Excellent" twice).
\<close>

theorem C10_labels_disagree:
  "((\<forall>d\<in>set cards. status d \<noteq> Error) \<and> (\<exists>d\<in>set cards. status d = Warning) \<longrightarrow>
      overallStatusRow cards = ''Good'' \<and> statusLabel cards = ''Good (with advisories)'') \<and>
   ((\<exists>d\<in>set cards. status d = Error) \<longrightarrow>
      overallStatusRow cards = ''Needs attention'' \<and> statusLabel cards = ''Needs Attention'') \<and>
   ((\<forall>d\<in>set cards. status d = Success) \<longrightarrow>
      overallStatusRow cards = ''Excellent'' \<and> statusLabel cards = ''Excellent'') \<and>
   ((lower (overallStatusRow cards) = lower (statusLabel cards)) =
      ((\<exists>d\<in>set cards. status d = Error) \<or> (\<forall>d\<in>set cards. status d = Success)))"
proof -
  have row: "overallStatusRow cards =
     (if hasError cards then ''Needs attention''
      else if hasWarning cards then ''Good'' else ''Excellent'')"
    by (simp add: overallStatusRow_def hasError_def hasWarning_def)
  consider (err) "hasError cards" | (warn) "\<not> hasError cards" "hasWarning cards"
    | (ok) "\<not> hasError cards" "\<not> hasWarning cards"
    by blast
  then show ?thesis
  proof cases
    case err
    then have "overallStatusRow cards = ''Needs attention''" "statusLabel cards = ''Needs Attention''"
      by (simp_all add: row statusLabel_def)
    moreover have "\<exists>d\<in>set cards. status d = Error" "\<not> (\<forall>d\<in>set cards. status d = Success)"
      using err by (fastforce simp: hasError_iff)+
    ultimately show ?thesis
      by (simp add: lower_labels) 
  next
    case warn
    then have "overallStatusRow cards = ''Good''" "statusLabel cards = ''Good (with advisories)''"
      by (simp_all add: row statusLabel_def)
    moreover have "\<not> (\<exists>d\<in>set cards. status d = Error)" "\<exists>d\<in>set cards. status d = Warning"
      "\<not> (\<forall>d\<in>set cards. status d = Success)"
      using warn by (fastforce simp: hasError_iff hasWarning_iff)+
    ultimately show ?thesis
      by (simp add: lower_labels)
  next
    case ok
    then have "overallStatusRow cards = ''Excellent''" "statusLabel cards = ''Excellent''"
      by (simp_all add: row statusLabel_def)
    moreover have "\<not> (\<exists>d\<in>set cards. status d = Error)" "\<not> (\<exists>d\<in>set cards. status d = Warning)"
      "\<forall>d\<in>set cards. status d = Success"
      using ok all_success_iff [of cards] by (auto simp: hasError_iff hasWarning_iff)
    ultimately show ?thesis
      by simp
  qed
qed

theorem C10_labels_disagree_witness:
  "overallStatusRow (diagCards (demo Yes False None)) = ''Good'' \<and>
   statusLabel (diagCards (demo Yes False None)) = ''Good (with advisories)'' \<and>
   lower (overallStatusRow (diagCards (demo Yes False None))) \<noteq>
     lower (statusLabel (diagCards (demo Yes False None))) \<and>
   overallStatusRow (diagCards (demo Yes False None\<lparr>voltage := Num 9\<rparr>)) = ''Needs attention'' \<and>
   statusLabel (diagCards (demo Yes False None\<lparr>voltage := Num 9\<rparr>)) = ''Needs Attention'' \<and>
   overallStatusRow
     (diagCards (demo Yes False None\<lparr>satStatus := Ready, firmwareUpdateAvailable := False\<rparr>)) =
     ''Excellent''"
proof -
  let ?warn = "diagCards (demo Yes False None)"
  let ?err = "diagCards (demo Yes False None\<lparr>voltage := Num 9\<rparr>)"
  let ?good = "diagCards (demo Yes False None\<lparr>satStatus := Ready, firmwareUpdateAvailable := False\<rparr>)"
  have w: "(\<forall>d\<in>set ?warn. status d \<noteq> Error) \<and> (\<exists>d\<in>set ?warn. status d = Warning)"
    by (simp add: diagCards_def demo_def status_defs)
  have w': "\<not> ((\<exists>d\<in>set ?warn. status d = Error) \<or> (\<forall>d\<in>set ?warn. status d = Success))"
    by (simp add: diagCards_def demo_def status_defs)
  have e: "\<exists>d\<in>set ?err. status d = Error"
    by (simp add: diagCards_def demo_def status_defs)
  have g: "\<forall>d\<in>set ?good. status d = Success"
    by (simp add: diagCards_def demo_def status_defs)
  from w w' C10_labels_disagree [of ?warn]
  have 1: "overallStatusRow ?warn = ''Good''" "statusLabel ?warn = ''Good (with advisories)''"
    "lower (overallStatusRow ?warn) \<noteq> lower (statusLabel ?warn)"
    by blast+
  from e C10_labels_disagree [of ?err]
  have 2: "overallStatusRow ?err = ''Needs attention''" "statusLabel ?err = ''Needs Attention''"
    by blast+
  from g C10_labels_disagree [of ?good]
  have 3: "overallStatusRow ?good = ''Excellent''"
    by blast
  from 1 2 3 show ?thesis by blast
qed

subsection \<open>Satellite, Ethernet and Wi-Fi\<close>

lemma js_eq_Num [simp]: "js_eq a (Num b) = (a = Num b)"
  by (cases a) simp_all

text \<open>
  C7. For every combination of \<open>satEnabled\<close> and \<open>satStatus\<close>, the satellite status is never
  \<open>error\<close>: it is \<open>success\<close> when the backup is enabled and its state is \<open>ready\<close>, and
  \<open>warning\<close> in every other case. It is the status of the satellite card.
\<close>

theorem C7_satellite_never_error:
  "satelliteStatus s \<noteq> Error \<and>
   (satelliteStatus s = Success) = (satEnabled s \<and> satStatus s = Ready) \<and>
   (satelliteStatus s = Warning) = (\<not> (satEnabled s \<and> satStatus s = Ready)) \<and>
   map status (filter (\<lambda>d. id' d = ''satellite'') (diagCards s)) = [satelliteStatus s]"
  by (simp add: satelliteStatus_def diagCards_def)

theorem C7_satellite_never_error_witness:
  "satelliteStatus (demo Yes False None) = Warning \<and>
   satelliteStatus (demo No False None) = Warning \<and>
   satelliteStatus (demo Yes False None\<lparr>satStatus := Ready\<rparr>) = Success \<and>
   satelliteStatus (demo No False None\<lparr>satStatus := Ready\<rparr>) = Warning \<and>
   satelliteStatus (demo Yes False None\<lparr>satStatus := NotConfigured\<rparr>) = Warning"
  using C7_satellite_never_error [of "demo Yes False None"]
    C7_satellite_never_error [of "demo No False None"]
    C7_satellite_never_error [of "demo Yes False None\<lparr>satStatus := Ready\<rparr>"]
    C7_satellite_never_error [of "demo No False None\<lparr>satStatus := Ready\<rparr>"]
    C7_satellite_never_error [of "demo Yes False None\<lparr>satStatus := NotConfigured\<rparr>"]
  by (simp add: demo_def)

text \<open>
  C8. For every Ethernet measurement, the status is \<open>success\<close> exactly when the link is
  detected (\<open>"Yes"\<close>), the internet is \<open>"online"\<close> and both error counters are 0; it is
  \<open>error\<close> exactly when the link is not detected or the internet is not online; it is
  \<open>warning\<close> otherwise. The Ethernet card carries this status, with the summary
  "Connected" for \<open>success\<close> and "Offline" for \<open>error\<close>.
\<close>

theorem C8_ethernet_status:
  "(ethStatus s = Success) =
     (ethLinkDetected s = ''Yes'' \<and> ethInternet s = ''online'' \<and>
      ethRxErrors s = Num 0 \<and> ethTxErrors s = Num 0) \<and>
   (ethStatus s = Error) = (ethLinkDetected s \<noteq> ''Yes'' \<or> ethInternet s \<noteq> ''online'') \<and>
   (ethStatus s = Warning) =
     (ethLinkDetected s = ''Yes'' \<and> ethInternet s = ''online'' \<and>
      \<not> (ethRxErrors s = Num 0 \<and> ethTxErrors s = Num 0)) \<and>
   map (\<lambda>d. (status d, summaryPrimary d)) (filter (\<lambda>d. id' d = ''ethernet'') (diagCards s)) =
     [(ethStatus s,
       if ethStatus s = Success then ''Connected''
       else if ethStatus s = Error then ''Offline'' else ''Degraded'')] \<and>
   ethStatus
     (s\<lparr>ethLinkDetected := ''Yes'', ethInternet := ''online'', ethRxErrors := Num 0,
        ethTxErrors := Num 0\<rparr>) = Success \<and>
   ethStatus (s\<lparr>ethLinkDetected := ''No''\<rparr>) = Error"
  by (auto simp: ethStatus_def diagCards_def)

theorem C8_ethernet_status_witness:
  "ethStatus (demo Yes False None) = Success \<and>
   map summaryPrimary (filter (\<lambda>d. id' d = ''ethernet'') (diagCards (demo Yes False None))) =
     [''Connected''] \<and>
   ethStatus (demo Yes False None\<lparr>ethLinkDetected := ''No''\<rparr>) = Error \<and>
   map summaryPrimary
     (filter (\<lambda>d. id' d = ''ethernet'')
       (diagCards (demo Yes False None\<lparr>ethLinkDetected := ''No''\<rparr>))) = [''Offline''] \<and>
   ethStatus (demo Yes False None\<lparr>ethInternet := ''offline''\<rparr>) = Error \<and>
   ethStatus (demo Yes False None\<lparr>ethTxErrors := Num 2\<rparr>) = Warning"
proof -
  let ?d = "demo Yes False None"
  have a: "ethStatus ?d = Success"
    using C8_ethernet_status [of ?d] by (simp add: demo_def)
  have b: "ethStatus (?d\<lparr>ethLinkDetected := ''No''\<rparr>) = Error"
    using C8_ethernet_status [of "?d\<lparr>ethLinkDetected := ''No''\<rparr>"] by (simp add: demo_def)
  have c: "ethStatus (?d\<lparr>ethInternet := ''offline''\<rparr>) = Error"
    using C8_ethernet_status [of "?d\<lparr>ethInternet := ''offline''\<rparr>"] by (simp add: demo_def)
  have d: "ethStatus (?d\<lparr>ethTxErrors := Num 2\<rparr>) = Warning"
    using C8_ethernet_status [of "?d\<lparr>ethTxErrors := Num 2\<rparr>"] by (simp add: demo_def)
  have e: "map summaryPrimary (filter (\<lambda>d. id' d = ''ethernet'') (diagCards ?d)) = [''Connected'']"
    using a by (simp add: diagCards_def)
  have f: "map summaryPrimary
     (filter (\<lambda>d. id' d = ''ethernet'') (diagCards (?d\<lparr>ethLinkDetected := ''No''\<rparr>))) = [''Offline'']"
    using b by (simp add: diagCards_def)
  from a b c d e f show ?thesis by blast
qed

text \<open>
  C9. For every Wi-Fi measurement whose status is \<open>warning\<close>, the summary of the Wi-Fi card
  is the fixed string "Disabled / Optional". The status is \<open>warning\<close> also when Wi-Fi is
  provisioned, or powered and connected, and only the internet is not reachable; the
  summary is the same there.
\<close>

theorem C9_wifi_warning_label:
  "(wifiStatus s = Warning \<longrightarrow> wifiSummaryPrimary s = ''Disabled / Optional'') \<and>
   (wifiSummaryPrimary s = ''Disabled / Optional'' \<longrightarrow> wifiStatus s = Warning) \<and>
   map (\<lambda>d. (status d, summaryPrimary d)) (filter (\<lambda>d. id' d = ''wifi'') (diagCards s)) =
     [(wifiStatus s, wifiSummaryPrimary s)] \<and>
   (wifiProvisioned s \<and> wifiInternetReachability s \<noteq> Online \<longrightarrow> wifiStatus s = Warning) \<and>
   (\<not> wifiProvisioned s \<and> wifiTechPowered s \<and> wifiConnected s \<and>
      wifiInternetReachability s \<noteq> Online \<longrightarrow> wifiStatus s = Warning) \<and>
   (\<not> wifiProvisioned s \<and> \<not> wifiTechPowered s \<longrightarrow> wifiStatus s = Warning)"
  by (simp add: wifiSummaryPrimary_def wifiStatus_def diagCards_def)

theorem C9_wifi_warning_label_witness:
  "wifiTechPowered (demo Yes True (Some ''Southern Cousin'')\<lparr>wifiInternetReachability := Offline\<rparr>) \<and>
   wifiConnected (demo Yes True (Some ''Southern Cousin'')\<lparr>wifiInternetReachability := Offline\<rparr>) \<and>
   wifiStatus (demo Yes True (Some ''Southern Cousin'')\<lparr>wifiInternetReachability := Offline\<rparr>) =
     Warning \<and>
   wifiSummaryPrimary
     (demo Yes True (Some ''Southern Cousin'')\<lparr>wifiInternetReachability := Offline\<rparr>) =
     ''Disabled / Optional'' \<and>
   wifiSummaryPrimary (demo Yes False None\<lparr>wifiInternetReachability := Unknown\<rparr>) =
     ''Disabled / Optional''"
proof -
  let ?p = "demo Yes True (Some ''Southern Cousin'')\<lparr>wifiInternetReachability := Offline\<rparr>"
  let ?c = "demo Yes False None\<lparr>wifiInternetReachability := Unknown\<rparr>"
  have p: "wifiProvisioned ?p \<and> wifiInternetReachability ?p \<noteq> Online"
    by (simp add: wifiProvisioned_def demo_def)
  have c: "\<not> wifiProvisioned ?c \<and> wifiTechPowered ?c \<and> wifiConnected ?c \<and>
      wifiInternetReachability ?c \<noteq> Online"
    by (simp add: wifiProvisioned_def demo_def)
  from p C9_wifi_warning_label [of ?p]
  have 1: "wifiStatus ?p = Warning" "wifiSummaryPrimary ?p = ''Disabled / Optional''"
    by blast+
  from c C9_wifi_warning_label [of ?c]
  have 2: "wifiSummaryPrimary ?c = ''Disabled / Optional''"
    by blast
  have 3: "wifiTechPowered ?p" "wifiConnected ?p"
    by (simp_all add: demo_def)
  from 1 2 3 show ?thesis by blast
qed

subsection \<open>The rulebook lookup\<close>

lemma RULEBOOK_ids:
  "map rule_id RULEBOOK =
     [''ethernet'', ''wifi'', ''cellular'', ''satellite'', ''power'', ''manifold'', ''source'',
      ''cloud'', ''firmware'']"
  by (simp add: RULEBOOK_def)

lemma find_key_None: "(find (\<lambda>r. f r = k) xs = None) = (k \<notin> set (map f xs))"
  by (auto simp: find_None_iff)

lemma find_key_Some: "find (\<lambda>r. f r = k) xs = Some r \<Longrightarrow> r \<in> set xs \<and> f r = k"
  by (auto simp: find_Some_iff)

lemma RULEBOOK_hd: "RULEBOOK \<noteq> [] \<and> rule_id (hd RULEBOOK) = ''ethernet''"
  by (simp add: RULEBOOK_def)

lemma selected_fallback: "RULEBOOK_find i = None \<Longrightarrow> selected i = Some (hd RULEBOOK)"
  by (simp add: selected_def) (simp add: RULEBOOK_def)

lemma selected_found: "RULEBOOK_find i = Some r \<Longrightarrow> selected i = Some r"
  by (simp add: selected_def)

text \<open>
  Inside the application the modal opens with \<open>focus = null\<close> or with the id of a card, and
  every card has its rulebook entry, in the same order; the fallback is then never taken.
\<close>

lemma diagCards_ids_RULEBOOK: "map id' (diagCards s) = map rule_id RULEBOOK"
  by (simp add: RULEBOOK_ids) (simp add: diagCards_def)

lemma selected_card:
  assumes "d \<in> set (diagCards s)"
  shows "map_option rule_id (selected (initialSelectedId (Some (id' d)))) = Some (id' d)"
proof -
  from assms have "id' d \<in> set (map id' (diagCards s))"
    by simp
  then have "id' d \<in> set (map rule_id RULEBOOK)"
    by (simp only: diagCards_ids_RULEBOOK)
  then have "RULEBOOK_find (id' d) \<noteq> None"
    by (simp only: RULEBOOK_find_def find_key_None) simp
  then obtain r where r: "RULEBOOK_find (id' d) = Some r"
    by blast
  then have "rule_id r = id' d"
    unfolding RULEBOOK_find_def using find_key_Some [of rule_id "id' d" RULEBOOK r] by blast
  with r show ?thesis
    by (simp add: initialSelectedId_def selected_found)
qed

lemma selected_no_focus:
  "map_option rule_id (selected (initialSelectedId None)) = Some ''ethernet''"
  by (simp add: initialSelectedId_def selected_def RULEBOOK_find_def RULEBOOK_def)

text \<open>
  C4 (as the code has it). \<open>RULEBOOK.find\<close> returns an entry exactly for the nine subsystem
  ids, and the entry it returns is the entry of the table with that id (the ids of the
  table are distinct). For every other id it returns \<open>undefined\<close>, and the lookup of
  \<open>RulebookModal\<close> then does not fail: \<open>?? RULEBOOK[0]\<close> selects the first entry, Ethernet.
  So the selected entry has the requested id when the id is one of the nine, and the id
  \<open>ethernet\<close> otherwise.
\<close>

theorem C4_lookup_with_fallback:
  "(RULEBOOK_find i \<noteq> None) =
     (i \<in> set [''ethernet'', ''wifi'', ''cellular'', ''satellite'', ''power'', ''manifold'',
        ''source'', ''cloud'', ''firmware'']) \<and>
   (\<forall>r. RULEBOOK_find i = Some r \<longrightarrow> r \<in> set RULEBOOK \<and> rule_id r = i) \<and>
   distinct (map rule_id RULEBOOK) \<and>
   length RULEBOOK = 9 \<and>
   selected i = (if RULEBOOK_find i \<noteq> None then RULEBOOK_find i else Some (hd RULEBOOK)) \<and>
   map_option rule_id (selected i) =
     Some (if i \<in> set [''ethernet'', ''wifi'', ''cellular'', ''satellite'', ''power'', ''manifold'',
        ''source'', ''cloud'', ''firmware''] then i else ''ethernet'')"
proof -
  let ?ids = "[''ethernet'', ''wifi'', ''cellular'', ''satellite'', ''power'', ''manifold'',
        ''source'', ''cloud'', ''firmware'']"
  have found: "(RULEBOOK_find i \<noteq> None) = (i \<in> set ?ids)"
    unfolding RULEBOOK_find_def find_key_None RULEBOOK_ids by simp
  have match: "\<forall>r. RULEBOOK_find i = Some r \<longrightarrow> r \<in> set RULEBOOK \<and> rule_id r = i"
    unfolding RULEBOOK_find_def using find_key_Some [of rule_id i RULEBOOK] by blast
  have dist: "distinct (map rule_id RULEBOOK)"
    unfolding RULEBOOK_ids by simp
  have len: "length RULEBOOK = 9"
    using arg_cong [OF RULEBOOK_ids, of length] by simp
  have sel: "selected i = (if RULEBOOK_find i \<noteq> None then RULEBOOK_find i else Some (hd RULEBOOK))"
    by (cases "RULEBOOK_find i") (simp_all add: selected_fallback selected_found)
  have ids: "map_option rule_id (selected i) = Some (if i \<in> set ?ids then i else ''ethernet'')"
  proof (cases "RULEBOOK_find i")
    case None
    with found have "i \<notin> set ?ids" by simp
    with None sel show ?thesis by (simp add: RULEBOOK_hd)
  next
    case (Some e)
    with match have "rule_id e = i" by blast
    moreover from Some found have "i \<in> set ?ids" by simp
    ultimately show ?thesis using Some sel by simp
  qed
  from found match dist len sel ids show ?thesis by blast
qed

theorem C4_lookup_with_fallback_witness:
  "map_option rule_title (RULEBOOK_find ''power'') = Some ''Power'' \<and>
   map_option rule_id (selected ''power'') = Some ''power'' \<and>
   map_option rule_id (selected ''Power'') = Some ''ethernet''"
proof -
  let ?ids = "[''ethernet'', ''wifi'', ''cellular'', ''satellite'', ''power'', ''manifold'',
        ''source'', ''cloud'', ''firmware'']"
  have t: "map_option rule_title (RULEBOOK_find ''power'') = Some ''Power''"
    by (simp add: RULEBOOK_find_def RULEBOOK_def)
  have "map_option rule_id (selected ''power'') =
      Some (if ''power'' \<in> set ?ids then ''power'' else ''ethernet'')"
    using C4_lookup_with_fallback [of "''power''"] by blast
  then have a: "map_option rule_id (selected ''power'') = Some ''power''"
    by simp
  have "map_option rule_id (selected ''Power'') =
      Some (if ''Power'' \<in> set ?ids then ''Power'' else ''ethernet'')"
    using C4_lookup_with_fallback [of "''Power''"] by blast
  then have b: "map_option rule_id (selected ''Power'') = Some ''ethernet''"
    by simp
  from t a b show ?thesis by blast
qed

text \<open>
  The claim as the specification states it, a lookup that fails with "not found" outside
  the nine ids, does not hold of the lookup of \<open>RulebookModal\<close>: \<open>gps\<close> is not one of the
  nine ids, \<open>find\<close> returns nothing for it, and the modal selects the Ethernet entry.
\<close>

theorem C4_lookup_counterexample:
  "''gps'' \<notin> set [''ethernet'', ''wifi'', ''cellular'', ''satellite'', ''power'', ''manifold'',
      ''source'', ''cloud'', ''firmware''] \<and>
   RULEBOOK_find ''gps'' = None \<and>
   selected ''gps'' \<noteq> None \<and>
   map_option rule_id (selected ''gps'') = Some ''ethernet''"
proof -
  have none: "RULEBOOK_find ''gps'' = None"
    unfolding RULEBOOK_find_def find_key_None RULEBOOK_ids by simp
  then have "selected ''gps'' = Some (hd RULEBOOK)"
    by (rule selected_fallback)
  with none show ?thesis by (simp add: RULEBOOK_hd)
qed

subsection \<open>The Wi-Fi channel\<close>

lemma round_nonneg: "0 \<le> x \<Longrightarrow> 0 \<le> round x" for x :: real
  by (simp add: round_def)

lemma Math_round_Num: "Math_round (Num x) = Num (round x)"
  by (simp add: round_def)

lemma channel_24: 
  assumes "2412 \<le> f" "f \<le> 2484"
  shows "wifiChannelFromFreqMHz (Some (Num f)) = Some (digits (nat (round ((f - 2407) / 5))))"
proof -
  have "0 \<le> (f - 2407) / 5" using assms by simp
  then have "0 \<le> round ((f - 2407) / 5)" by (rule round_nonneg)
  then show ?thesis using assms
    by (simp add: wifiChannelFromFreqMHz_def Let_def Math_round_Num del: Math_round.simps)
qed

lemma channel_5: 
  assumes "5000 \<le> f" "f \<le> 5900"
  shows "wifiChannelFromFreqMHz (Some (Num f)) = Some (digits (nat (round ((f - 5000) / 5))))"
proof -
  have "0 \<le> (f - 5000) / 5" using assms by simp
  then have "0 \<le> round ((f - 5000) / 5)" by (rule round_nonneg)
  then show ?thesis using assms
    by (simp add: wifiChannelFromFreqMHz_def Let_def Math_round_Num del: Math_round.simps)
qed

lemma channel_other:
  assumes "\<not> (2412 \<le> f \<and> f \<le> 2484)" "\<not> (5000 \<le> f \<and> f \<le> 5900)"
  shows "wifiChannelFromFreqMHz (Some (Num f)) = None"
  using assms by (simp add: wifiChannelFromFreqMHz_def)

lemma channel_nonfinite:
  "wifiChannelFromFreqMHz None = None"
  "wifiChannelFromFreqMHz (Some NaN) = None"
  "wifiChannelFromFreqMHz (Some Infinity) = None"
  "wifiChannelFromFreqMHz (Some NegInfinity) = None"
  by (simp_all add: wifiChannelFromFreqMHz_def)

text \<open>
  C5. For every finite frequency \<open>f\<close>: in the 2.4 GHz band (\<open>2412 \<le> f \<le> 2484\<close>) the channel
  is \<open>round ((f - 2407) / 5)\<close>, in the 5 GHz band (\<open>5000 \<le> f \<le> 5900\<close>) it is
  \<open>round ((f - 5000) / 5)\<close>, returned as its decimal string; for every other frequency,
  for \<open>NaN\<close> and the infinities, and for \<open>null\<close>, the result is \<open>null\<close> (no channel, not the
  channel zero). \<open>round\<close> is rounding to the nearest integer, a tie going up, as
  \<open>Math.round\<close> does. In particular the channel of 2412 is "1", of 5180 is "36", and 3000
  and \<open>null\<close> have none.
\<close>

theorem C5_wifi_channel:
  "wifiChannelFromFreqMHz (Some (Num f)) =
     (if 2412 \<le> f \<and> f \<le> 2484 then Some (digits (nat (round ((f - 2407) / 5))))
      else if 5000 \<le> f \<and> f \<le> 5900 then Some (digits (nat (round ((f - 5000) / 5))))
      else None) \<and>
   wifiChannelFromFreqMHz None = None \<and>
   wifiChannelFromFreqMHz (Some NaN) = None \<and>
   wifiChannelFromFreqMHz (Some Infinity) = None \<and>
   wifiChannelFromFreqMHz (Some NegInfinity) = None \<and>
   wifiChannelFromFreqMHz (Some (Num 2412)) = Some ''1'' \<and>
   wifiChannelFromFreqMHz (Some (Num 5180)) = Some ''36'' \<and>
   wifiChannelFromFreqMHz (Some (Num 3000)) = None"
proof -
  have gen: "wifiChannelFromFreqMHz (Some (Num f)) =
     (if 2412 \<le> f \<and> f \<le> 2484 then Some (digits (nat (round ((f - 2407) / 5))))
      else if 5000 \<le> f \<and> f \<le> 5900 then Some (digits (nat (round ((f - 5000) / 5))))
      else None)"
    using channel_24 [of f] channel_5 [of f] channel_other [of f] by presburger
  have pts: "wifiChannelFromFreqMHz (Some (Num 2412)) = Some ''1''"
    "wifiChannelFromFreqMHz (Some (Num 5180)) = Some ''36''"
    "wifiChannelFromFreqMHz (Some (Num 3000)) = None"
    by (simp_all add: wifiChannelFromFreqMHz_def Let_def)
  from gen pts channel_nonfinite show ?thesis by blast
qed

theorem C5_wifi_channel_witness:
  "wifiChannelFromFreqMHz (Some (Num 2437)) = Some ''6'' \<and>
   wifiChannelFromFreqMHz (Some (Num 2484)) = Some ''15'' \<and>
   wifiChannelFromFreqMHz (Some (Num 5900)) = Some ''180'' \<and>
   wifiChannelFromFreqMHz (Some (Num 5000)) = Some ''0'' \<and>
   wifiChannelFromFreqMHz (Some (Num 2411.9)) = None \<and>
   wifiChannelFromFreqMHz (Some (Num 0)) = None"
  using C5_wifi_channel [of 2437] C5_wifi_channel [of 2484] C5_wifi_channel [of 5900]
    C5_wifi_channel [of 5000] C5_wifi_channel [of "2411.9"] C5_wifi_channel [of 0]
  by (simp add: round_def)

subsection \<open>The signal bars\<close>

lemma band_floor: "\<lfloor>real_of_int c / 20 + 1 / 2\<rfloor> = (c + 10) div 20"
proof -
  have "real_of_int c / 20 + 1 / 2 = real_of_int (c + 10) / real_of_int 20"
    by simp
  then show ?thesis
    by (simp only: floor_divide_of_int_eq)
qed

lemma band_range: "0 \<le> c \<Longrightarrow> c \<le> 100 \<Longrightarrow> 0 \<le> (c + 10) div 20 \<and> (c + 10) div 20 \<le> 5" for c :: int
  by presburger

lemma glyph_Num:
  "wifiStrengthGlyph (Some (Num x)) =
     Inr (concat (replicate (nat ((max 0 (min 100 (round x)) + 10) div 20)) BAR_FILLED) @
          concat (replicate (5 - nat ((max 0 (min 100 (round x)) + 10) div 20)) BAR_EMPTY))"
proof -
  define c where "c = max 0 (min 100 (round x))"
  define k where "k = (c + 10) div 20"
  have c: "0 \<le> c" "c \<le> 100"
    by (simp_all add: c_def)
  then have k: "0 \<le> k" "k \<le> 5"
    using band_range [of c] by (simp_all add: k_def)
  have clamped: "Math_max (Num 0) (Math_min (Num 100) (Math_round (Num x))) = Num c"
    by (simp add: c_def round_def min.commute max.commute)
  have filled: "Math_max (Num 0) (Math_min (Num 5) (Math_round (js_div_by (to_real (Num c)) 20))) = Num k"
    using k by (simp add: band_floor k_def)
  have rep1: "js_repeat BAR_FILLED (Num k) = Inr (concat (replicate (nat k) BAR_FILLED))"
    using k by simp
  have rep2: "js_repeat BAR_EMPTY (js_minus (Num 5) (Num k)) = Inr (concat (replicate (5 - nat k) BAR_EMPTY))"
  proof -
    have "nat (5 - k) = 5 - nat k" using k by simp
    then show ?thesis using k by simp
  qed
  have "wifiStrengthGlyph (Some (Num x)) =
      Inr (concat (replicate (nat k) BAR_FILLED) @ concat (replicate (5 - nat k) BAR_EMPTY))"
    unfolding wifiStrengthGlyph_def
    by (simp only: option.case isFinite.simps not_True_eq_False if_False Let_def clamped filled
        rep1 rep2 sum.case)
  then show ?thesis
    by (simp only: k_def c_def)
qed

lemma clamp_round:
  "max 0 (min 100 (round (max 0 (min 100 x)))) = max 0 (min 100 (round x))" for x :: real
proof -
  consider "x < 0" | "0 \<le> x" "x \<le> 100" | "100 < x" by linarith
  then show ?thesis
  proof cases
    case 1
    then have "round x \<le> 0" by (simp add: round_def; linarith)
    with 1 show ?thesis by (simp add: round_def)
  next
    case 2
    then show ?thesis by simp
  next
    case 3
    then have "100 \<le> round x" by (simp add: round_def; linarith)
    with 3 show ?thesis by (simp add: round_def)
  qed
qed

text \<open>
  C6. \<open>wifiStrengthGlyph\<close> never raises and always returns five bars. For \<open>null\<close>, \<open>NaN\<close> and
  the infinities all five are empty. For a finite value the result is the result for the
  value clamped to \<open>[0, 100]\<close>; the number of filled bars is the clamped value, rounded to
  an integer, divided by 20 and rounded to the nearest integer (a tie going up), which for
  an integer percentage \<open>n\<close> is \<open>(n + 10) div 20\<close>. In particular 100 gives five filled
  bars, 0 gives five empty bars, -5 gives what 0 gives and 150 gives what 100 gives.
\<close>

theorem C6_signal_glyph:
  "wifiStrengthGlyph None = Inr (concat (replicate 5 BAR_EMPTY)) \<and>
   wifiStrengthGlyph (Some NaN) = Inr (concat (replicate 5 BAR_EMPTY)) \<and>
   wifiStrengthGlyph (Some Infinity) = Inr (concat (replicate 5 BAR_EMPTY)) \<and>
   wifiStrengthGlyph (Some NegInfinity) = Inr (concat (replicate 5 BAR_EMPTY)) \<and>
   wifiStrengthGlyph (Some (Num x)) = wifiStrengthGlyph (Some (Num (max 0 (min 100 x)))) \<and>
   wifiStrengthGlyph (Some (Num x)) =
     Inr (concat (replicate (nat ((max 0 (min 100 (round x)) + 10) div 20)) BAR_FILLED) @
          concat (replicate (5 - nat ((max 0 (min 100 (round x)) + 10) div 20)) BAR_EMPTY)) \<and>
   wifiStrengthGlyph (Some (Num (of_int n))) =
     Inr (concat (replicate (nat ((max 0 (min 100 n) + 10) div 20)) BAR_FILLED) @
          concat (replicate (5 - nat ((max 0 (min 100 n) + 10) div 20)) BAR_EMPTY)) \<and>
   wifiStrengthGlyph (Some (Num 100)) = Inr (concat (replicate 5 BAR_FILLED)) \<and>
   wifiStrengthGlyph (Some (Num 0)) = Inr (concat (replicate 5 BAR_EMPTY)) \<and>
   wifiStrengthGlyph (Some (Num (- 5))) = wifiStrengthGlyph (Some (Num 0)) \<and>
   wifiStrengthGlyph (Some (Num 150)) = wifiStrengthGlyph (Some (Num 100))"
proof -
  have non: "wifiStrengthGlyph None = Inr (concat (replicate 5 BAR_EMPTY))"
    "wifiStrengthGlyph (Some NaN) = Inr (concat (replicate 5 BAR_EMPTY))"
    "wifiStrengthGlyph (Some Infinity) = Inr (concat (replicate 5 BAR_EMPTY))"
    "wifiStrengthGlyph (Some NegInfinity) = Inr (concat (replicate 5 BAR_EMPTY))"
    by (simp_all add: wifiStrengthGlyph_def numeral_eq_Suc)
  have clamp: "wifiStrengthGlyph (Some (Num x)) = wifiStrengthGlyph (Some (Num (max 0 (min 100 x))))"
    by (simp only: glyph_Num clamp_round)
  have int: "wifiStrengthGlyph (Some (Num (of_int n))) =
     Inr (concat (replicate (nat ((max 0 (min 100 n) + 10) div 20)) BAR_FILLED) @
          concat (replicate (5 - nat ((max 0 (min 100 n) + 10) div 20)) BAR_EMPTY))"
    by (simp only: glyph_Num round_of_int)
  have full: "wifiStrengthGlyph (Some (Num 100)) = Inr (concat (replicate 5 BAR_FILLED))"
    using glyph_Num [of 100] by simp
  have none: "wifiStrengthGlyph (Some (Num 0)) = Inr (concat (replicate 5 BAR_EMPTY))"
    using glyph_Num [of 0] by simp
  have low: "wifiStrengthGlyph (Some (Num (- 5))) = wifiStrengthGlyph (Some (Num 0))"
    using glyph_Num [of "- 5"] glyph_Num [of 0] by (simp add: round_def)
  have high: "wifiStrengthGlyph (Some (Num 150)) = wifiStrengthGlyph (Some (Num 100))"
    using glyph_Num [of 150] glyph_Num [of 100] by simp
  from non clamp glyph_Num [of x] int full none low high show ?thesis
    by blast
qed

theorem C6_signal_glyph_witness:
  "wifiStrengthGlyph (Some (Num 60)) =
     Inr (BAR_FILLED @ BAR_FILLED @ BAR_FILLED @ BAR_EMPTY @ BAR_EMPTY) \<and>
   wifiStrengthGlyph (Some (Num 9)) = Inr (concat (replicate 5 BAR_EMPTY)) \<and>
   wifiStrengthGlyph (Some (Num 10)) =
     Inr (BAR_FILLED @ BAR_EMPTY @ BAR_EMPTY @ BAR_EMPTY @ BAR_EMPTY) \<and>
   wifiStrengthGlyph (Some (Num 9.6)) =
     Inr (BAR_FILLED @ BAR_EMPTY @ BAR_EMPTY @ BAR_EMPTY @ BAR_EMPTY) \<and>
   wifiStrengthGlyph (Some (Num 250.5)) = Inr (concat (replicate 5 BAR_FILLED))"
  using C6_signal_glyph [of 60 60] C6_signal_glyph [of 9 9] C6_signal_glyph [of 10 10]
    C6_signal_glyph [of "9.6" 0] C6_signal_glyph [of "250.5" 0]
  by (simp add: round_def numeral_eq_Suc)

end
